theory Spec2Isabelle
  imports Complex_Main "HOL-Library.Multiset" "HOL-Library.Signed_Division"
begin

section \<open>Collaborator types of the repeat analyzer\<close>

text \<open>
  The analyzer of \<^verbatim>\<open>region_analysis/RepeatAnalyzer.cpp\<close> works on graph alignments and
  delegates to several classes whose sources are outside the file. Their values are
  modelled here; the functions of the file itself follow in the next sections.
\<close>

type_synonym NodeId = nat

text \<open>
  Modelled from the spec: the enumeration \<^verbatim>\<open>AlignmentType\<close> is declared outside the file.
  The file names \<^verbatim>\<open>kSpansRepeat\<close>, \<^verbatim>\<open>kFlanksRepeat\<close> and \<^verbatim>\<open>kInsideRepeat\<close>; the spec lists one
  more type, Other, which the \<^verbatim>\<open>default\<close> branch of the source's switch receives.
\<close>

datatype AlignmentType = kSpansRepeat | kFlanksRepeat | kInsideRepeat | kOther

text \<open>
  Modelled from the spec: \<^verbatim>\<open>AlleleCount\<close> is declared outside the file, which names
  \<^verbatim>\<open>kTwo\<close>; the spec has haploid and diploid loci.
\<close>

datatype AlleleCount = kOne | kTwo

text \<open>
  Modelled from the spec: \<^verbatim>\<open>GenotypeFilter\<close> is declared outside the file. The spec calls it
  a bit-flag set combined with bitwise OR; a set of flags with union is that abstraction.
  \<^verbatim>\<open>GenotypeFilter()\<close> is the empty set.
\<close>

datatype GenotypeFilterFlag = kLowDepth

type_synonym GenotypeFilter = "GenotypeFilterFlag set"

subsection \<open>Count tables\<close>

text \<open>
  Modelled from the spec: \<^verbatim>\<open>CountTable\<close> and \<^verbatim>\<open>collapseTopElements\<close> are defined outside the
  file. The spec describes a sparse mapping from a number of repeat units to an occurrence
  count, with increment, enumeration of the keys with non-zero counts and a collapse that
  merges the counts above a cutoff into the cutoff bucket. A finitely supported mapping
  from keys to natural counts is a multiset of keys: \<open>count t k\<close> is the count stored for
  bucket \<open>k\<close>, and a bucket that was never incremented has count 0. Keys are the source's
  \<^verbatim>\<open>int32_t\<close> values; they are only compared, never computed with, so they are integers here.
  The enumeration lists the keys in ascending order, as an ordered map is traversed.
\<close>

type_synonym CountTable = "int multiset"

text \<open>Modelled from the spec: the occurrence count a table holds for a key.\<close>

definition countOf :: "CountTable \<Rightarrow> int \<Rightarrow> nat" where
  "countOf t element = count t element"

text \<open>Modelled from the spec: \<^verbatim>\<open>incrementCountOf\<close> adds one observation of a key.\<close>

definition incrementCountOf :: "int \<Rightarrow> CountTable \<Rightarrow> CountTable" where
  "incrementCountOf element t = add_mset element t"

text \<open>
  Modelled from the spec: \<^verbatim>\<open>getElementsWithNonzeroCounts\<close> enumerates the keys with a
  non-zero count.
\<close>

definition getElementsWithNonzeroCounts :: "CountTable \<Rightarrow> int list" where
  "getElementsWithNonzeroCounts t = sorted_list_of_set (set_mset t)"

text \<open>
  Modelled from the spec: \<^verbatim>\<open>collapseTopElements\<close> merges the counts of the buckets above the
  cutoff into the cutoff bucket and keeps the buckets below it.
\<close>

definition collapseTopElements :: "CountTable \<Rightarrow> int \<Rightarrow> CountTable" where
  "collapseTopElements t upperBound =
     image_mset (\<lambda>element. if element < upperBound then element else upperBound) t"

subsection \<open>Alignment statistics\<close>

text \<open>
  Modelled from the spec: \<^verbatim>\<open>RepeatAlignmentStats\<close> is declared outside the file. Its
  constructor is called with the alignment, its type and the number of repeat units the
  alignment overlaps; the file reads back \<^verbatim>\<open>canonicalAlignmentType()\<close> and
  \<^verbatim>\<open>numRepeatUnitsSpanned()\<close>, the value the third constructor argument initialises.
\<close>

record 'a RepeatAlignmentStats =
  canonicalAlignment :: 'a
  canonicalAlignmentType :: AlignmentType
  numRepeatUnitsSpanned :: int

text \<open>
  Modelled from the spec: the breakpoint statistics calculator is defined outside the file.
  The spec describes a running count of the confident alignments that cross each of the
  two repeat breakpoints, fed one alignment at a time and queried at the end.
\<close>

record GraphVariantAlignmentStatsCalculator =
  leftBreakpointSpanCount :: int
  rightBreakpointSpanCount :: int

record GraphVariantAlignmentStats =
  numReadsSpanningLeftBreakpoint :: int
  numReadsSpanningRightBreakpoint :: int

text \<open>
  The functions the file calls on an alignment, and the genotyper it delegates to, are
  parameters of the model: \<open>'a\<close> is the type of graph alignments and \<open>'g\<close> the type of
  repeat genotypes. The arguments of \<open>genotypeRepeat\<close> are those of the constructor of
  \<^verbatim>\<open>RepeatGenotyper\<close> in the order of the source, followed by the candidate allele sizes.
  \<open>spansLeftBreakpoint\<close> and \<open>spansRightBreakpoint\<close> say which breakpoints the calculator
  finds an alignment to cross.
\<close>

record ('a, 'g) Collaborators =
  checkIfPassesAlignmentFilters :: "'a \<Rightarrow> bool"
  checkIfUpstreamAlignmentIsGood :: "NodeId \<Rightarrow> 'a \<Rightarrow> bool"
  checkIfDownstreamAlignmentIsGood :: "NodeId \<Rightarrow> 'a \<Rightarrow> bool"
  Classify :: "'a \<Rightarrow> AlignmentType"
  countFullOverlaps :: "NodeId \<Rightarrow> 'a \<Rightarrow> int"
  spansLeftBreakpoint :: "'a \<Rightarrow> bool"
  spansRightBreakpoint :: "'a \<Rightarrow> bool"
  genotypeRepeat ::
    "real \<Rightarrow> AlleleCount \<Rightarrow> int \<Rightarrow> int \<Rightarrow> real \<Rightarrow> CountTable \<Rightarrow> CountTable \<Rightarrow> CountTable
       \<Rightarrow> int \<Rightarrow> int list \<Rightarrow> 'g option"

text \<open>
  Modelled from the spec: \<^verbatim>\<open>inspect\<close> records one alignment, counting it for each breakpoint
  it crosses.
\<close>

definition inspect ::
  "('a, 'g) Collaborators \<Rightarrow> 'a \<Rightarrow> GraphVariantAlignmentStatsCalculator
     \<Rightarrow> GraphVariantAlignmentStatsCalculator" where
  "inspect E alignment calc =
     calc\<lparr>leftBreakpointSpanCount :=
            leftBreakpointSpanCount calc + (if spansLeftBreakpoint E alignment then 1 else 0),
          rightBreakpointSpanCount :=
            rightBreakpointSpanCount calc + (if spansRightBreakpoint E alignment then 1 else 0)\<rparr>"

text \<open>Modelled from the spec: \<^verbatim>\<open>getStats\<close> reports the two running counts.\<close>

definition getStats :: "GraphVariantAlignmentStatsCalculator \<Rightarrow> GraphVariantAlignmentStats" where
  "getStats calc =
     \<lparr>numReadsSpanningLeftBreakpoint = leftBreakpointSpanCount calc,
      numReadsSpanningRightBreakpoint = rightBreakpointSpanCount calc\<rparr>"

subsection \<open>Reads, locus statistics, parameters and findings\<close>

record Read =
  readId :: string
  sequence :: string

text \<open>
  Modelled from the spec: \<^verbatim>\<open>LocusStats\<close>, the genotyper parameters and \<^verbatim>\<open>RepeatFindings\<close>
  are declared outside the file; the records hold the fields the file reads and the
  arguments it passes to the constructor of the findings, in the source's order.
  \<^verbatim>\<open>depth\<close> and \<^verbatim>\<open>minLocusCoverage\<close> are doubles in the source; the file only compares and
  halves them, so they are real numbers here. The mean read length is an integer: the
  source casts the divisor to \<^verbatim>\<open>double\<close> before dividing it.
\<close>

record LocusStats =
  alleleCount :: AlleleCount
  meanReadLength :: int
  depth :: real

record GenotyperParameters =
  minLocusCoverage :: real
  minBreakpointSpanningReads :: int

record 'g RepeatFindings =
  findingsSpanningTable :: CountTable
  findingsFlankingTable :: CountTable
  findingsInrepeatTable :: CountTable
  findingsAlleleCount :: AlleleCount
  findingsRepeatGenotype :: "'g option"
  findingsGenotypeFilter :: GenotypeFilter

text \<open>
  The members of \<^verbatim>\<open>RepeatAnalyzer\<close> that the file reads or writes; the trailing underscore of
  the source's member names is dropped.
\<close>

record RepeatAnalyzer =
  variantId :: string
  repeatNodeId :: NodeId
  repeatUnit :: string
  genotyperParams :: GenotyperParameters
  countsOfSpanningReads :: CountTable
  countsOfFlankingReads :: CountTable
  countsOfInrepeatReads :: CountTable
  countOfInrepeatReadPairs :: int
  alignmentStatsCalculator :: GraphVariantAlignmentStatsCalculator

section \<open>The functions of RepeatAnalyzer.cpp\<close>

subsection \<open>checkIfAlignmentIsConfident\<close>

definition checkIfAlignmentIsConfident ::
  "('a, 'g) Collaborators \<Rightarrow> NodeId \<Rightarrow> 'a \<Rightarrow> 'a RepeatAlignmentStats \<Rightarrow> bool" where
  "checkIfAlignmentIsConfident E nodeId alignment alignmentStats =
     (if \<not> checkIfPassesAlignmentFilters E alignment then False
      else
        let doesReadAlignWellOverLeftFlank = checkIfUpstreamAlignmentIsGood E nodeId alignment;
            doesReadAlignWellOverRightFlank = checkIfDownstreamAlignmentIsGood E nodeId alignment
        in
          if canonicalAlignmentType alignmentStats = kFlanksRepeat
             \<and> \<not> doesReadAlignWellOverLeftFlank \<and> \<not> doesReadAlignWellOverRightFlank
          then False
          else if canonicalAlignmentType alignmentStats = kSpansRepeat
             \<and> (\<not> doesReadAlignWellOverLeftFlank \<or> \<not> doesReadAlignWellOverRightFlank)
          then False
          else True)"

subsection \<open>classifyReadAlignment and summarizeAlignmentsToReadCounts\<close>

definition classifyReadAlignment ::
  "('a, 'g) Collaborators \<Rightarrow> RepeatAnalyzer \<Rightarrow> 'a \<Rightarrow> 'a RepeatAlignmentStats" where
  "classifyReadAlignment E self alignment =
     (let alignmentType = Classify E alignment;
          numRepeatUnitsOverlapped = countFullOverlaps E (repeatNodeId self) alignment
      in \<lparr>canonicalAlignment = alignment,
          canonicalAlignmentType = alignmentType,
          numRepeatUnitsSpanned = numRepeatUnitsOverlapped\<rparr>)"

definition summarizeAlignmentsToReadCounts ::
  "RepeatAnalyzer \<Rightarrow> 'a RepeatAlignmentStats \<Rightarrow> RepeatAnalyzer" where
  "summarizeAlignmentsToReadCounts self repeatAlignmentStats =
     (case canonicalAlignmentType repeatAlignmentStats of
        kSpansRepeat \<Rightarrow>
          self\<lparr>countsOfSpanningReads :=
                 incrementCountOf (numRepeatUnitsSpanned repeatAlignmentStats)
                   (countsOfSpanningReads self)\<rparr>
      | kFlanksRepeat \<Rightarrow>
          self\<lparr>countsOfFlankingReads :=
                 incrementCountOf (numRepeatUnitsSpanned repeatAlignmentStats)
                   (countsOfFlankingReads self)\<rparr>
      | kInsideRepeat \<Rightarrow>
          self\<lparr>countsOfInrepeatReads :=
                 incrementCountOf (numRepeatUnitsSpanned repeatAlignmentStats)
                   (countsOfInrepeatReads self)\<rparr>
      | kOther \<Rightarrow> self)"

subsection \<open>processMates\<close>

text \<open>
  The trace and debug messages of the source write to the console only and are left out;
  the reads are arguments of the function all the same. The analyzer is passed in and
  returned updated.
\<close>

definition processMates ::
  "('a, 'g) Collaborators \<Rightarrow> RepeatAnalyzer \<Rightarrow> Read \<Rightarrow> 'a \<Rightarrow> Read \<Rightarrow> 'a \<Rightarrow> RepeatAnalyzer" where
  "processMates E self read readAlignment mate mateAlignment =
     (let readAlignmentStats = classifyReadAlignment E self readAlignment;
          mateAlignmentStats = classifyReadAlignment E self mateAlignment;
          isReadAlignmentConfident =
            checkIfAlignmentIsConfident E (repeatNodeId self) readAlignment readAlignmentStats;
          isMateAlignmentConfident =
            checkIfAlignmentIsConfident E (repeatNodeId self) mateAlignment mateAlignmentStats;
          self1 =
            (if isReadAlignmentConfident
             then summarizeAlignmentsToReadCounts
                    (self\<lparr>alignmentStatsCalculator :=
                            inspect E readAlignment (alignmentStatsCalculator self)\<rparr>)
                    readAlignmentStats
             else self);
          self2 =
            (if isMateAlignmentConfident
             then summarizeAlignmentsToReadCounts
                    (self1\<lparr>alignmentStatsCalculator :=
                             inspect E mateAlignment (alignmentStatsCalculator self1)\<rparr>)
                    mateAlignmentStats
             else self1)
      in self2)"

subsection \<open>generateCandidateAlleleSizes\<close>

text \<open>
  \<^verbatim>\<open>*std::max_element(v.begin(), v.end())\<close> on a vector that is not empty; the source
  guards every call with \<^verbatim>\<open>v.empty()\<close>.
\<close>

fun max_element :: "int list \<Rightarrow> int" where
  "max_element (x # xs) = fold max xs x"

definition generateCandidateAlleleSizes :: "CountTable \<Rightarrow> CountTable \<Rightarrow> CountTable \<Rightarrow> int list" where
  "generateCandidateAlleleSizes spanningTable flankingTable inrepeatTable =
     (let candidateSizes = getElementsWithNonzeroCounts spanningTable;
          longestSpanning = (if candidateSizes = [] then 0 else max_element candidateSizes);
          flankingSizes = getElementsWithNonzeroCounts flankingTable;
          longestFlanking = (if flankingSizes = [] then 0 else max_element flankingSizes);
          inrepeatSizes = getElementsWithNonzeroCounts inrepeatTable;
          longestInrepeat = (if inrepeatSizes = [] then 0 else max_element inrepeatSizes);
          longestNonSpanning = max longestFlanking longestInrepeat
      in if longestSpanning < longestNonSpanning
         then candidateSizes @ [longestNonSpanning]
         else candidateSizes)"

subsection \<open>analyze\<close>

text \<open>
  \<^verbatim>\<open>analyze\<close> is a \<^verbatim>\<open>const\<close> member function: it copies the three tables into locals and
  works on the locals. The model returns the findings together with the analyzer as it is
  after the call. With an empty repeat unit the source divides by 0.0 and converts the
  infinite quotient to \<^verbatim>\<open>int\<close>, which is undefined; the model returns \<open>None\<close> there.
  The quotient of two 32-bit integers is rounded by the double division to a value with
  the same ceiling, so the ceiling is taken of the exact quotient. The integer division
  of C++ truncates towards zero (\<open>sdiv\<close>).
\<close>

definition analyze ::
  "('a, 'g) Collaborators \<Rightarrow> RepeatAnalyzer \<Rightarrow> LocusStats
     \<Rightarrow> ('g RepeatFindings \<times> RepeatAnalyzer) option" where
  "analyze E self stats =
     (let repeatGenotype = None;
          genotypeFilter = {};
          spanningTable = countsOfSpanningReads self;
          flankingTable = countsOfFlankingReads self;
          inrepeatTable = countsOfInrepeatReads self
      in
        if meanReadLength stats = 0 \<or> depth stats < minLocusCoverage (genotyperParams self)
        then
          Some (\<lparr>findingsSpanningTable = spanningTable,
                  findingsFlankingTable = flankingTable,
                  findingsInrepeatTable = inrepeatTable,
                  findingsAlleleCount = alleleCount stats,
                  findingsRepeatGenotype = repeatGenotype,
                  findingsGenotypeFilter = genotypeFilter \<union> {kLowDepth}\<rparr>, self)
        else
          let repeatUnitLength = int (length (repeatUnit self)) in
          if repeatUnitLength = 0 then None
          else
            let propCorrectMolecules = 97 / 100;
                maxNumUnitsInRead =
                  \<lceil>real_of_int (meanReadLength stats) / real_of_int repeatUnitLength\<rceil>;
                spanningTable' = collapseTopElements spanningTable maxNumUnitsInRead;
                flankingTable' = collapseTopElements flankingTable maxNumUnitsInRead;
                inrepeatTable' = collapseTopElements inrepeatTable maxNumUnitsInRead;
                candidateAlleleSizes =
                  generateCandidateAlleleSizes spanningTable' flankingTable' inrepeatTable';
                haplotypeDepth =
                  (if alleleCount stats = kTwo then depth stats / 2 else depth stats);
                minBreakpointSpanningReads' =
                  (if alleleCount stats = kTwo
                   then minBreakpointSpanningReads (genotyperParams self)
                   else minBreakpointSpanningReads (genotyperParams self) sdiv 2);
                repeatGenotype' =
                  genotypeRepeat E haplotypeDepth (alleleCount stats) repeatUnitLength
                    maxNumUnitsInRead propCorrectMolecules spanningTable' flankingTable'
                    inrepeatTable' (countOfInrepeatReadPairs self) candidateAlleleSizes;
                alignmentStats = getStats (alignmentStatsCalculator self);
                genotypeFilter' =
                  (if numReadsSpanningRightBreakpoint alignmentStats < minBreakpointSpanningReads'
                      \<or> numReadsSpanningLeftBreakpoint alignmentStats < minBreakpointSpanningReads'
                   then genotypeFilter \<union> {kLowDepth}
                   else genotypeFilter)
            in Some (\<lparr>findingsSpanningTable = spanningTable',
                       findingsFlankingTable = flankingTable',
                       findingsInrepeatTable = inrepeatTable',
                       findingsAlleleCount = alleleCount stats,
                       findingsRepeatGenotype = repeatGenotype',
                       findingsGenotypeFilter = genotypeFilter'\<rparr>, self))"

section \<open>The specification's reading of the operations\<close>

text \<open>
  The definitions of this section follow the words of the specification, not the source;
  the theorems below compare them with the functions of the source.
\<close>

text \<open>The longest size of a table, taken as 0 for an empty table.\<close>

definition spec_longest :: "CountTable \<Rightarrow> int" where
  "spec_longest t = (if t = {#} then 0 else Max (set_mset t))"

definition spec_longestNonSpanning :: "CountTable \<Rightarrow> CountTable \<Rightarrow> int" where
  "spec_longestNonSpanning flankingTable inrepeatTable =
     max (spec_longest flankingTable) (spec_longest inrepeatTable)"

text \<open>
  The configured threshold of breakpoint spanning reads for diploid loci, halved by
  integer division for haploid loci.
\<close>

definition spec_minBreakpointSpanningReads :: "AlleleCount \<Rightarrow> int \<Rightarrow> int" where
  "spec_minBreakpointSpanningReads ac threshold =
     (case ac of kTwo \<Rightarrow> threshold | kOne \<Rightarrow> threshold sdiv 2)"

text \<open>The collapse cutoff: the ceiling of the exact quotient.\<close>

definition spec_maxNumUnitsInRead :: "int \<Rightarrow> int \<Rightarrow> int" where
  "spec_maxNumUnitsInRead readLength unitLength =
     \<lceil>real_of_int readLength / real_of_int unitLength\<rceil>"

text \<open>
  The evidence one alignment contributes: nothing when it is not confident; otherwise it
  is fed to the breakpoint statistics and the bucket \<open>numRepeatUnitsSpanned\<close> of the table
  of its canonical type is incremented (no table for the type Other).
\<close>

definition spec_accumulate ::
  "('a, 'g) Collaborators \<Rightarrow> 'a \<Rightarrow> RepeatAnalyzer \<Rightarrow> RepeatAnalyzer" where
  "spec_accumulate E alignment self =
     (let stats = classifyReadAlignment E self alignment;
          units = numRepeatUnitsSpanned stats;
          ty = canonicalAlignmentType stats
      in if checkIfAlignmentIsConfident E (repeatNodeId self) alignment stats
         then self\<lparr>countsOfSpanningReads :=
                     (if ty = kSpansRepeat
                      then incrementCountOf units (countsOfSpanningReads self)
                      else countsOfSpanningReads self),
                   countsOfFlankingReads :=
                     (if ty = kFlanksRepeat
                      then incrementCountOf units (countsOfFlankingReads self)
                      else countsOfFlankingReads self),
                   countsOfInrepeatReads :=
                     (if ty = kInsideRepeat
                      then incrementCountOf units (countsOfInrepeatReads self)
                      else countsOfInrepeatReads self),
                   alignmentStatsCalculator :=
                     inspect E alignment (alignmentStatsCalculator self)\<rparr>
         else self)"

text \<open>
  A locus's read pairs submitted one after the other: each pair is a read, its alignment,
  the mate and the mate's alignment.
\<close>

definition processAllMates ::
  "('a, 'g) Collaborators \<Rightarrow> (Read \<times> 'a \<times> Read \<times> 'a) list \<Rightarrow> RepeatAnalyzer \<Rightarrow> RepeatAnalyzer" where
  "processAllMates E pairs self =
     fold (\<lambda>(read, readAlignment, mate, mateAlignment) s.
             processMates E s read readAlignment mate mateAlignment) pairs self"

text \<open>
  Modelled from the spec: the caller of \<^verbatim>\<open>processMates\<close> is not in the file, and nothing in
  the file writes \<^verbatim>\<open>countOfInrepeatReadPairs_\<close>. The spec has the caller submit a pair to
  \<^verbatim>\<open>processMates\<close> and increment the counter when the two per-mate classifications,
  computed independently, both equal Inside.
\<close>

definition bothMatesInsideRepeat ::
  "('a, 'g) Collaborators \<Rightarrow> RepeatAnalyzer \<Rightarrow> 'a \<Rightarrow> 'a \<Rightarrow> bool" where
  "bothMatesInsideRepeat E self readAlignment mateAlignment \<longleftrightarrow>
     canonicalAlignmentType (classifyReadAlignment E self readAlignment) = kInsideRepeat
     \<and> canonicalAlignmentType (classifyReadAlignment E self mateAlignment) = kInsideRepeat"

definition submitReadPair ::
  "('a, 'g) Collaborators \<Rightarrow> RepeatAnalyzer \<Rightarrow> Read \<Rightarrow> 'a \<Rightarrow> Read \<Rightarrow> 'a \<Rightarrow> RepeatAnalyzer" where
  "submitReadPair E self read readAlignment mate mateAlignment =
     (let self' = processMates E self read readAlignment mate mateAlignment
      in if bothMatesInsideRepeat E self readAlignment mateAlignment
         then self'\<lparr>countOfInrepeatReadPairs := countOfInrepeatReadPairs self' + 1\<rparr>
         else self')"

definition submitAllReadPairs ::
  "('a, 'g) Collaborators \<Rightarrow> (Read \<times> 'a \<times> Read \<times> 'a) list \<Rightarrow> RepeatAnalyzer \<Rightarrow> RepeatAnalyzer" where
  "submitAllReadPairs E pairs self =
     fold (\<lambda>(read, readAlignment, mate, mateAlignment) s.
             submitReadPair E s read readAlignment mate mateAlignment) pairs self"

text \<open>The pairs of a sequence whose two mates are both classified as Inside.\<close>

definition spec_inrepeatPairs ::
  "('a, 'g) Collaborators \<Rightarrow> (Read \<times> 'a \<times> Read \<times> 'a) list \<Rightarrow> (Read \<times> 'a \<times> Read \<times> 'a) list" where
  "spec_inrepeatPairs E pairs =
     filter (\<lambda>(read, readAlignment, mate, mateAlignment).
               Classify E readAlignment = kInsideRepeat
               \<and> Classify E mateAlignment = kInsideRepeat) pairs"

section \<open>A concrete locus\<close>

text \<open>
  Alignments that carry what the collaborators find in them, collaborators that read it
  off, and a genotyper that reports the in-repeat pair count and the candidate sizes it
  was given. They serve as concrete inputs.
\<close>

record ExampleAlignment =
  passesFilters :: bool
  upstreamGood :: bool
  downstreamGood :: bool
  classifiedAs :: AlignmentType
  fullOverlaps :: int

definition exampleCollaborators :: "(ExampleAlignment, int \<times> int list) Collaborators" where
  "exampleCollaborators =
     \<lparr>checkIfPassesAlignmentFilters = passesFilters,
      checkIfUpstreamAlignmentIsGood = (\<lambda>n. upstreamGood),
      checkIfDownstreamAlignmentIsGood = (\<lambda>n. downstreamGood),
      Classify = classifiedAs,
      countFullOverlaps = (\<lambda>n. fullOverlaps),
      spansLeftBreakpoint = upstreamGood,
      spansRightBreakpoint = downstreamGood,
      genotypeRepeat = (\<lambda>haplotypeDepth ac unitLength maxUnits prop st ft it pairs sizes.
                          Some (pairs, sizes))\<rparr>"

definition exampleAlignment :: "bool \<Rightarrow> bool \<Rightarrow> bool \<Rightarrow> AlignmentType \<Rightarrow> int \<Rightarrow> ExampleAlignment" where
  "exampleAlignment p u d ty n =
     \<lparr>passesFilters = p, upstreamGood = u, downstreamGood = d, classifiedAs = ty,
      fullOverlaps = n\<rparr>"

definition exampleRead :: Read where
  "exampleRead = \<lparr>readId = ''read1'', sequence = ''CAGCAGCAG''\<rparr>"

definition exampleAnalyzer :: RepeatAnalyzer where
  "exampleAnalyzer =
     \<lparr>variantId = ''HTT'',
      repeatNodeId = 1,
      repeatUnit = ''CAG'',
      genotyperParams = \<lparr>minLocusCoverage = 10, minBreakpointSpanningReads = 10\<rparr>,
      countsOfSpanningReads = {#5, 5, 15#},
      countsOfFlankingReads = {#8#},
      countsOfInrepeatReads = {#},
      countOfInrepeatReadPairs = 0,
      alignmentStatsCalculator = \<lparr>leftBreakpointSpanCount = 3, rightBreakpointSpanCount = 7\<rparr>\<rparr>"

definition exampleStats :: "AlleleCount \<Rightarrow> int \<Rightarrow> real \<Rightarrow> LocusStats" where
  "exampleStats ac len d = \<lparr>alleleCount = ac, meanReadLength = len, depth = d\<rparr>"

section \<open>Facts about count tables and the helpers\<close>

lemmas example_simps =
  exampleCollaborators_def exampleAlignment_def exampleAnalyzer_def exampleStats_def
  exampleRead_def

lemma max_element_Max: "xs \<noteq> [] \<Longrightarrow> max_element xs = Max (set xs)"
proof (cases xs)
  case Nil
  assume "xs \<noteq> []"
  with Nil show ?thesis by simp
next
  case (Cons y ys)
  then show ?thesis using Max.set_eq_fold [of y ys] by simp
qed

lemma set_getElements: "set (getElementsWithNonzeroCounts t) = set_mset t"
  by (simp add: getElementsWithNonzeroCounts_def)

lemma getElements_Nil: "getElementsWithNonzeroCounts t = [] \<longleftrightarrow> t = {#}"
  by (simp add: getElementsWithNonzeroCounts_def)

lemma distinct_getElements: "distinct (getElementsWithNonzeroCounts t)"
  by (simp add: getElementsWithNonzeroCounts_def)

lemma longest_eq:
  "(if getElementsWithNonzeroCounts t = [] then 0 else max_element (getElementsWithNonzeroCounts t))
     = spec_longest t"
  by (simp add: getElements_Nil spec_longest_def max_element_Max set_getElements)

lemma generateCandidateAlleleSizes_eq:
  "generateCandidateAlleleSizes s f i =
     getElementsWithNonzeroCounts s @
       (if spec_longest s < spec_longestNonSpanning f i then [spec_longestNonSpanning f i] else [])"
  unfolding generateCandidateAlleleSizes_def Let_def longest_eq spec_longestNonSpanning_def
  by simp

section \<open>Candidate allele sizes\<close>

text \<open>
  C1. For every triple of count tables, \<open>generateCandidateAlleleSizes\<close> returns the sizes
  with non-zero spanning-read support, followed by the longest non-spanning size (the
  maximum of the longest flanking and the longest in-repeat size, each 0 for an empty
  table) exactly when the longest spanning size (0 for an empty table) is strictly less.
  In particular spanning \<open>{5:2}\<close>, flanking \<open>{8:1}\<close>, in-repeat \<open>{}\<close> gives \<open>{5, 8}\<close>, and
  spanning \<open>{10:3}\<close>, flanking \<open>{4:1}\<close>, in-repeat \<open>{6:1}\<close> gives \<open>{10}\<close>.
\<close>

theorem generateCandidateAlleleSizes_sizes:
  "generateCandidateAlleleSizes s f i =
     getElementsWithNonzeroCounts s @
       (if spec_longest s < spec_longestNonSpanning f i then [spec_longestNonSpanning f i] else [])
   \<and> set (generateCandidateAlleleSizes s f i) =
       {k. 0 < countOf s k} \<union>
       (if spec_longest s < spec_longestNonSpanning f i then {spec_longestNonSpanning f i} else {})
   \<and> set (generateCandidateAlleleSizes {#5, 5#} {#8#} {#}) = {5, 8}
   \<and> set (generateCandidateAlleleSizes {#10, 10, 10#} {#4#} {#6#}) = {10}"
proof -
  have list: "generateCandidateAlleleSizes s f i =
     getElementsWithNonzeroCounts s @
       (if spec_longest s < spec_longestNonSpanning f i then [spec_longestNonSpanning f i] else [])"
    by (rule generateCandidateAlleleSizes_eq)
  have keys: "set (getElementsWithNonzeroCounts s) = {k. 0 < countOf s k}"
    by (auto simp: set_getElements countOf_def)
  have ex1: "set (generateCandidateAlleleSizes {#5, 5#} {#8#} {#}) = {5, 8}"
    by code_simp
  have ex2: "set (generateCandidateAlleleSizes {#10, 10, 10#} {#4#} {#6#}) = {10}"
    by code_simp
  from list keys ex1 ex2 show ?thesis by simp
qed

theorem generateCandidateAlleleSizes_sizes_witness:
  "generateCandidateAlleleSizes {#5, 5#} {#8#} {#} = [5, 8]
   \<and> generateCandidateAlleleSizes {#10, 10, 10#} {#4#} {#6#} = [10]"
proof -
  have a: "getElementsWithNonzeroCounts {#5, 5::int#} = [5]" by code_simp
  have b: "spec_longest {#5, 5#} = 5" by code_simp
  have c: "spec_longestNonSpanning {#8#} {#} = 8" by code_simp
  have d: "getElementsWithNonzeroCounts {#10, 10, 10::int#} = [10]" by code_simp
  have e: "spec_longest {#10, 10, 10#} = 10" by code_simp
  have f: "spec_longestNonSpanning {#4#} {#6#} = 6" by code_simp
  show ?thesis
    using generateCandidateAlleleSizes_sizes [of "{#5, 5#}" "{#8#}" "{#}"]
      generateCandidateAlleleSizes_sizes [of "{#10, 10, 10#}" "{#4#}" "{#6#}"]
    by (simp add: a b c d e f)
qed

section \<open>The alignment confidence filter\<close>

text \<open>
  C2. \<open>checkIfAlignmentIsConfident\<close> returns false whenever the generic alignment filter
  fails, whatever the two flank checks would say. When the filter passes, an alignment of
  canonical type Flanks is confident iff at least one flank is aligned well, one of type
  Spans iff both flanks are aligned well, and one of any other type is confident with no
  flank requirement.
\<close>

theorem checkIfAlignmentIsConfident_policy:
  "(\<not> checkIfPassesAlignmentFilters E a \<longrightarrow>
      (\<forall>up down. \<not> checkIfAlignmentIsConfident
          (E\<lparr>checkIfUpstreamAlignmentIsGood := up, checkIfDownstreamAlignmentIsGood := down\<rparr>)
          n a st))
   \<and> (checkIfPassesAlignmentFilters E a \<longrightarrow>
        (canonicalAlignmentType st = kFlanksRepeat \<longrightarrow>
           checkIfAlignmentIsConfident E n a st =
             (checkIfUpstreamAlignmentIsGood E n a \<or> checkIfDownstreamAlignmentIsGood E n a))
      \<and> (canonicalAlignmentType st = kSpansRepeat \<longrightarrow>
           checkIfAlignmentIsConfident E n a st =
             (checkIfUpstreamAlignmentIsGood E n a \<and> checkIfDownstreamAlignmentIsGood E n a))
      \<and> (canonicalAlignmentType st \<noteq> kFlanksRepeat \<and> canonicalAlignmentType st \<noteq> kSpansRepeat \<longrightarrow>
           checkIfAlignmentIsConfident E n a st))"
  by (simp add: checkIfAlignmentIsConfident_def Let_def)

theorem checkIfAlignmentIsConfident_policy_witness:
  "\<not> checkIfAlignmentIsConfident exampleCollaborators 1 (exampleAlignment False True True kSpansRepeat 5)
       (classifyReadAlignment exampleCollaborators exampleAnalyzer
          (exampleAlignment False True True kSpansRepeat 5))
   \<and> checkIfAlignmentIsConfident exampleCollaborators 1 (exampleAlignment True False True kFlanksRepeat 5)
       (classifyReadAlignment exampleCollaborators exampleAnalyzer
          (exampleAlignment True False True kFlanksRepeat 5))
   \<and> \<not> checkIfAlignmentIsConfident exampleCollaborators 1 (exampleAlignment True False True kSpansRepeat 5)
       (classifyReadAlignment exampleCollaborators exampleAnalyzer
          (exampleAlignment True False True kSpansRepeat 5))
   \<and> checkIfAlignmentIsConfident exampleCollaborators 1 (exampleAlignment True False False kInsideRepeat 5)
       (classifyReadAlignment exampleCollaborators exampleAnalyzer
          (exampleAlignment True False False kInsideRepeat 5))"
  using
    checkIfAlignmentIsConfident_policy [where E = exampleCollaborators and n = 1
      and a = "exampleAlignment False True True kSpansRepeat 5"
      and st = "classifyReadAlignment exampleCollaborators exampleAnalyzer
          (exampleAlignment False True True kSpansRepeat 5)"]
    checkIfAlignmentIsConfident_policy [where E = exampleCollaborators and n = 1
      and a = "exampleAlignment True False True kFlanksRepeat 5"
      and st = "classifyReadAlignment exampleCollaborators exampleAnalyzer
          (exampleAlignment True False True kFlanksRepeat 5)"]
    checkIfAlignmentIsConfident_policy [where E = exampleCollaborators and n = 1
      and a = "exampleAlignment True False True kSpansRepeat 5"
      and st = "classifyReadAlignment exampleCollaborators exampleAnalyzer
          (exampleAlignment True False True kSpansRepeat 5)"]
    checkIfAlignmentIsConfident_policy [where E = exampleCollaborators and n = 1
      and a = "exampleAlignment True False False kInsideRepeat 5"
      and st = "classifyReadAlignment exampleCollaborators exampleAnalyzer
          (exampleAlignment True False False kInsideRepeat 5)"]
  by (simp add: example_simps classifyReadAlignment_def)

section \<open>Locus-level analysis\<close>

text \<open>
  C3. If the mean read length is 0 or the depth is below \<open>minLocusCoverage\<close>, \<open>analyze\<close>
  does not genotype: the findings carry the filter flag \<open>kLowDepth\<close>, no genotype, and the
  three accumulated tables as they are, not collapsed. The result does not mention the
  genotyper, and the repeat unit is not looked at.
\<close>

theorem analyze_insufficient_data:
  assumes "meanReadLength stats = 0 \<or> depth stats < minLocusCoverage (genotyperParams self)"
  shows "analyze E self stats =
           Some (\<lparr>findingsSpanningTable = countsOfSpanningReads self,
                  findingsFlankingTable = countsOfFlankingReads self,
                  findingsInrepeatTable = countsOfInrepeatReads self,
                  findingsAlleleCount = alleleCount stats,
                  findingsRepeatGenotype = None,
                  findingsGenotypeFilter = {kLowDepth}\<rparr>, self)"
  using assms by (simp add: analyze_def Let_def)

theorem analyze_insufficient_data_witness:
  "meanReadLength (exampleStats kTwo 0 30) = 0
   \<and> analyze exampleCollaborators exampleAnalyzer (exampleStats kTwo 0 30) =
       Some (\<lparr>findingsSpanningTable = {#5, 5, 15#},
              findingsFlankingTable = {#8#},
              findingsInrepeatTable = {#},
              findingsAlleleCount = kTwo,
              findingsRepeatGenotype = None,
              findingsGenotypeFilter = {kLowDepth}\<rparr>, exampleAnalyzer)"
proof -
  have h: "meanReadLength (exampleStats kTwo 0 30) = 0"
    by (simp add: exampleStats_def)
  then have "meanReadLength (exampleStats kTwo 0 30) = 0
     \<or> depth (exampleStats kTwo 0 30) < minLocusCoverage (genotyperParams exampleAnalyzer)"
    by simp
  from analyze_insufficient_data [OF this, of exampleCollaborators] h
  show ?thesis by (simp add: exampleStats_def exampleAnalyzer_def)
qed

section \<open>Facts about the analysis with sufficient data\<close>

lemma analyze_sufficient:
  assumes "meanReadLength stats \<noteq> 0"
    and "\<not> depth stats < minLocusCoverage (genotyperParams self)"
    and "repeatUnit self \<noteq> []"
  shows "analyze E self stats =
    Some (\<lparr>findingsSpanningTable =
             collapseTopElements (countsOfSpanningReads self)
               (spec_maxNumUnitsInRead (meanReadLength stats) (int (length (repeatUnit self)))),
           findingsFlankingTable =
             collapseTopElements (countsOfFlankingReads self)
               (spec_maxNumUnitsInRead (meanReadLength stats) (int (length (repeatUnit self)))),
           findingsInrepeatTable =
             collapseTopElements (countsOfInrepeatReads self)
               (spec_maxNumUnitsInRead (meanReadLength stats) (int (length (repeatUnit self)))),
           findingsAlleleCount = alleleCount stats,
           findingsRepeatGenotype =
             genotypeRepeat E
               (if alleleCount stats = kTwo then depth stats / 2 else depth stats)
               (alleleCount stats)
               (int (length (repeatUnit self)))
               (spec_maxNumUnitsInRead (meanReadLength stats) (int (length (repeatUnit self))))
               (97 / 100)
               (collapseTopElements (countsOfSpanningReads self)
                 (spec_maxNumUnitsInRead (meanReadLength stats) (int (length (repeatUnit self)))))
               (collapseTopElements (countsOfFlankingReads self)
                 (spec_maxNumUnitsInRead (meanReadLength stats) (int (length (repeatUnit self)))))
               (collapseTopElements (countsOfInrepeatReads self)
                 (spec_maxNumUnitsInRead (meanReadLength stats) (int (length (repeatUnit self)))))
               (countOfInrepeatReadPairs self)
               (generateCandidateAlleleSizes
                 (collapseTopElements (countsOfSpanningReads self)
                   (spec_maxNumUnitsInRead (meanReadLength stats) (int (length (repeatUnit self)))))
                 (collapseTopElements (countsOfFlankingReads self)
                   (spec_maxNumUnitsInRead (meanReadLength stats) (int (length (repeatUnit self)))))
                 (collapseTopElements (countsOfInrepeatReads self)
                   (spec_maxNumUnitsInRead (meanReadLength stats) (int (length (repeatUnit self)))))),
           findingsGenotypeFilter =
             (if rightBreakpointSpanCount (alignmentStatsCalculator self)
                   < spec_minBreakpointSpanningReads (alleleCount stats)
                       (minBreakpointSpanningReads (genotyperParams self))
                 \<or> leftBreakpointSpanCount (alignmentStatsCalculator self)
                   < spec_minBreakpointSpanningReads (alleleCount stats)
                       (minBreakpointSpanningReads (genotyperParams self))
              then {kLowDepth} else {})\<rparr>, self)"
proof -
  have m: "spec_minBreakpointSpanningReads (alleleCount stats) t =
             (if alleleCount stats = kTwo then t else t sdiv 2)" for t
    by (cases "alleleCount stats") (simp_all add: spec_minBreakpointSpanningReads_def)
  show ?thesis
    using assms
    by (simp add: analyze_def Let_def spec_maxNumUnitsInRead_def getStats_def m)
qed

text \<open>
  C4. In the branch with sufficient data, if the count of confident alignments spanning
  the left or the right breakpoint is below the minimum (the configured threshold for
  diploid loci, the threshold halved by integer division for haploid loci), the returned
  filter contains \<open>kLowDepth\<close>, whatever the genotyper returned.
\<close>

theorem analyze_breakpoint_filter:
  assumes "meanReadLength stats \<noteq> 0"
    and "\<not> depth stats < minLocusCoverage (genotyperParams self)"
    and "repeatUnit self \<noteq> []"
    and "leftBreakpointSpanCount (alignmentStatsCalculator self)
           < spec_minBreakpointSpanningReads (alleleCount stats)
               (minBreakpointSpanningReads (genotyperParams self))
         \<or> rightBreakpointSpanCount (alignmentStatsCalculator self)
           < spec_minBreakpointSpanningReads (alleleCount stats)
               (minBreakpointSpanningReads (genotyperParams self))"
  shows "\<exists>findings. analyze E self stats = Some (findings, self)
           \<and> kLowDepth \<in> findingsGenotypeFilter findings
           \<and> findingsRepeatGenotype findings =
               genotypeRepeat E
                 (if alleleCount stats = kTwo then depth stats / 2 else depth stats)
                 (alleleCount stats)
                 (int (length (repeatUnit self)))
                 (spec_maxNumUnitsInRead (meanReadLength stats) (int (length (repeatUnit self))))
                 (97 / 100)
                 (findingsSpanningTable findings)
                 (findingsFlankingTable findings)
                 (findingsInrepeatTable findings)
                 (countOfInrepeatReadPairs self)
                 (generateCandidateAlleleSizes (findingsSpanningTable findings)
                    (findingsFlankingTable findings) (findingsInrepeatTable findings))
           \<and> numReadsSpanningLeftBreakpoint (getStats (alignmentStatsCalculator self))
               = leftBreakpointSpanCount (alignmentStatsCalculator self)
           \<and> numReadsSpanningRightBreakpoint (getStats (alignmentStatsCalculator self))
               = rightBreakpointSpanCount (alignmentStatsCalculator self)"
  using assms(4) analyze_sufficient [OF assms(1-3), of E]
  by (auto simp: getStats_def)

theorem analyze_breakpoint_filter_witness:
  "spec_minBreakpointSpanningReads kOne 10 = 5
   \<and> (\<exists>findings.
        analyze exampleCollaborators exampleAnalyzer (exampleStats kOne 150 30)
          = Some (findings, exampleAnalyzer)
        \<and> kLowDepth \<in> findingsGenotypeFilter findings
        \<and> findingsRepeatGenotype findings \<noteq> None)"
proof -
  have m: "spec_minBreakpointSpanningReads kOne 10 = 5"
    by (simp add: spec_minBreakpointSpanningReads_def signed_divide_int_def)
  have g: "findingsRepeatGenotype findings \<noteq> None"
    if "analyze exampleCollaborators exampleAnalyzer (exampleStats kOne 150 30)
          = Some (findings, exampleAnalyzer)" for findings
    using that
    by (auto simp: analyze_def Let_def example_simps split: if_splits)
  have "meanReadLength (exampleStats kOne 150 30) \<noteq> 0"
    and "\<not> depth (exampleStats kOne 150 30) < minLocusCoverage (genotyperParams exampleAnalyzer)"
    and "repeatUnit exampleAnalyzer \<noteq> []"
    and "leftBreakpointSpanCount (alignmentStatsCalculator exampleAnalyzer)
           < spec_minBreakpointSpanningReads (alleleCount (exampleStats kOne 150 30))
               (minBreakpointSpanningReads (genotyperParams exampleAnalyzer))
         \<or> rightBreakpointSpanCount (alignmentStatsCalculator exampleAnalyzer)
           < spec_minBreakpointSpanningReads (alleleCount (exampleStats kOne 150 30))
               (minBreakpointSpanningReads (genotyperParams exampleAnalyzer))"
    by (simp_all add: example_simps m)
  from analyze_breakpoint_filter [OF this, of exampleCollaborators] m g
  show ?thesis by blast
qed

section \<open>Evidence accumulation\<close>

lemma repeatNodeId_summarize [simp]:
  "repeatNodeId (summarizeAlignmentsToReadCounts self st) = repeatNodeId self"
  by (cases "canonicalAlignmentType st") (simp_all add: summarizeAlignmentsToReadCounts_def)

lemma summarize_eq:
  "summarizeAlignmentsToReadCounts self st =
     self\<lparr>countsOfSpanningReads :=
            (if canonicalAlignmentType st = kSpansRepeat
             then incrementCountOf (numRepeatUnitsSpanned st) (countsOfSpanningReads self)
             else countsOfSpanningReads self),
          countsOfFlankingReads :=
            (if canonicalAlignmentType st = kFlanksRepeat
             then incrementCountOf (numRepeatUnitsSpanned st) (countsOfFlankingReads self)
             else countsOfFlankingReads self),
          countsOfInrepeatReads :=
            (if canonicalAlignmentType st = kInsideRepeat
             then incrementCountOf (numRepeatUnitsSpanned st) (countsOfInrepeatReads self)
             else countsOfInrepeatReads self)\<rparr>"
  by (cases "canonicalAlignmentType st") (simp_all add: summarizeAlignmentsToReadCounts_def)

lemma classifyReadAlignment_cong:
  "repeatNodeId s = repeatNodeId s' \<Longrightarrow> classifyReadAlignment E s a = classifyReadAlignment E s' a"
  by (simp add: classifyReadAlignment_def)

lemma repeatNodeId_accumulate [simp]:
  "repeatNodeId (spec_accumulate E a self) = repeatNodeId self"
  by (simp add: spec_accumulate_def Let_def)

lemma processMates_accumulate:
  "processMates E self read readAlignment mate mateAlignment =
     spec_accumulate E mateAlignment (spec_accumulate E readAlignment self)"
proof -
  have c: "classifyReadAlignment E (spec_accumulate E readAlignment self) mateAlignment
             = classifyReadAlignment E self mateAlignment"
    by (rule classifyReadAlignment_cong) simp
  show ?thesis
    unfolding processMates_def Let_def
    by (simp add: spec_accumulate_def [of E mateAlignment] c Let_def summarize_eq)
      (simp add: spec_accumulate_def Let_def)
qed

text \<open>
  C5. \<open>processMates\<close> accumulates the evidence of the read's alignment and then of the
  mate's, each classified and filtered on its own: an alignment that is not confident
  changes nothing; a confident one is fed to the breakpoint statistics and increments by
  one the bucket \<open>numRepeatUnitsSpanned\<close> of the spanning, flanking or in-repeat table
  according to its canonical type, and no table for the type Other. An increment raises
  the count of its bucket and the total of the table by exactly one.
\<close>

theorem processMates_evidence:
  "processMates E self read readAlignment mate mateAlignment =
     spec_accumulate E mateAlignment (spec_accumulate E readAlignment self)
   \<and> classifyReadAlignment E (spec_accumulate E readAlignment self) mateAlignment
       = classifyReadAlignment E self mateAlignment
   \<and> checkIfAlignmentIsConfident E (repeatNodeId (spec_accumulate E readAlignment self)) mateAlignment
       = checkIfAlignmentIsConfident E (repeatNodeId self) mateAlignment
   \<and> countOf (incrementCountOf k t) j = countOf t j + (if j = k then 1 else 0)
   \<and> size (incrementCountOf k t) = size t + 1"
  by (simp add: processMates_accumulate countOf_def incrementCountOf_def
      classifyReadAlignment_cong [of "spec_accumulate E readAlignment self" self])

theorem processMates_evidence_witness:
  "processMates exampleCollaborators exampleAnalyzer
     exampleRead (exampleAlignment True True True kSpansRepeat 5)
     exampleRead (exampleAlignment True False False kFlanksRepeat 8)
   = exampleAnalyzer
       \<lparr>countsOfSpanningReads := {#5, 5, 5, 15#},
        alignmentStatsCalculator := \<lparr>leftBreakpointSpanCount = 4, rightBreakpointSpanCount = 8\<rparr>\<rparr>
   \<and> processMates exampleCollaborators exampleAnalyzer
     exampleRead (exampleAlignment True True False kFlanksRepeat 2)
     exampleRead (exampleAlignment True False False kInsideRepeat 9)
   = exampleAnalyzer
       \<lparr>countsOfFlankingReads := {#2, 8#},
        countsOfInrepeatReads := {#9#},
        alignmentStatsCalculator := \<lparr>leftBreakpointSpanCount = 4, rightBreakpointSpanCount = 7\<rparr>\<rparr>
   \<and> processMates exampleCollaborators exampleAnalyzer
     exampleRead (exampleAlignment True False False kOther 2)
     exampleRead (exampleAlignment False True True kSpansRepeat 9)
   = exampleAnalyzer"
  using
    processMates_evidence [where E = exampleCollaborators and self = exampleAnalyzer
      and read = exampleRead and mate = exampleRead
      and readAlignment = "exampleAlignment True True True kSpansRepeat 5"
      and mateAlignment = "exampleAlignment True False False kFlanksRepeat 8"]
    processMates_evidence [where E = exampleCollaborators and self = exampleAnalyzer
      and read = exampleRead and mate = exampleRead
      and readAlignment = "exampleAlignment True True False kFlanksRepeat 2"
      and mateAlignment = "exampleAlignment True False False kInsideRepeat 9"]
    processMates_evidence [where E = exampleCollaborators and self = exampleAnalyzer
      and read = exampleRead and mate = exampleRead
      and readAlignment = "exampleAlignment True False False kOther 2"
      and mateAlignment = "exampleAlignment False True True kSpansRepeat 9"]
  by (simp add: spec_accumulate_def Let_def classifyReadAlignment_def
      checkIfAlignmentIsConfident_def inspect_def incrementCountOf_def example_simps)

subsection \<open>The in-repeat read pair counter\<close>

lemma countOfInrepeatReadPairs_accumulate [simp]:
  "countOfInrepeatReadPairs (spec_accumulate E a self) = countOfInrepeatReadPairs self"
  by (simp add: spec_accumulate_def Let_def)

lemma countOfInrepeatReadPairs_processMates:
  "countOfInrepeatReadPairs (processMates E self r ra m ma) = countOfInrepeatReadPairs self"
  by (simp add: processMates_accumulate)

lemma countOfInrepeatReadPairs_fold:
  "countOfInrepeatReadPairs
     (fold (\<lambda>(read, readAlignment, mate, mateAlignment) s.
              processMates E s read readAlignment mate mateAlignment) pairs self)
   = countOfInrepeatReadPairs self"
  by (induction pairs arbitrary: self)
    (auto simp: countOfInrepeatReadPairs_processMates)

lemma canonicalAlignmentType_classify:
  "canonicalAlignmentType (classifyReadAlignment E self a) = Classify E a"
  by (simp add: classifyReadAlignment_def)

lemma countOfInrepeatReadPairs_submitReadPair:
  "countOfInrepeatReadPairs (submitReadPair E self r ra m ma) =
     countOfInrepeatReadPairs self
       + (if Classify E ra = kInsideRepeat \<and> Classify E ma = kInsideRepeat then 1 else 0)"
  by (simp add: submitReadPair_def bothMatesInsideRepeat_def Let_def
      countOfInrepeatReadPairs_processMates canonicalAlignmentType_classify)

lemma submitReadPair_frame:
  "(submitReadPair E self r ra m ma)\<lparr>countOfInrepeatReadPairs := c\<rparr>
     = (processMates E self r ra m ma)\<lparr>countOfInrepeatReadPairs := c\<rparr>"
  by (simp add: submitReadPair_def Let_def)

lemma countOfInrepeatReadPairs_submitAll:
  "countOfInrepeatReadPairs (submitAllReadPairs E pairs self) =
     countOfInrepeatReadPairs self + int (length (spec_inrepeatPairs E pairs))"
proof (induction pairs arbitrary: self)
  case Nil
  show ?case by (simp add: submitAllReadPairs_def spec_inrepeatPairs_def)
next
  case (Cons p pairs)
  obtain r ra m ma where p: "p = (r, ra, m, ma)"
    by (cases p) auto
  have "submitAllReadPairs E (p # pairs) self
          = submitAllReadPairs E pairs (submitReadPair E self r ra m ma)"
    by (simp add: submitAllReadPairs_def p)
  then show ?case
    using Cons.IH [of "submitReadPair E self r ra m ma"]
    by (simp add: countOfInrepeatReadPairs_submitReadPair spec_inrepeatPairs_def p)
qed

lemma params_accumulate:
  "genotyperParams (spec_accumulate E a self) = genotyperParams self"
  "repeatUnit (spec_accumulate E a self) = repeatUnit self"
  by (simp_all add: spec_accumulate_def Let_def)

lemma params_submitReadPair:
  "genotyperParams (submitReadPair E self r ra m ma) = genotyperParams self"
  "repeatUnit (submitReadPair E self r ra m ma) = repeatUnit self"
  by (simp_all add: submitReadPair_def Let_def processMates_accumulate params_accumulate)

lemma params_submitAll:
  "genotyperParams (submitAllReadPairs E pairs self) = genotyperParams self
   \<and> repeatUnit (submitAllReadPairs E pairs self) = repeatUnit self"
proof (induction pairs arbitrary: self)
  case Nil
  show ?case by (simp add: submitAllReadPairs_def)
next
  case (Cons p pairs)
  obtain r ra m ma where p: "p = (r, ra, m, ma)"
    by (cases p) auto
  have "submitAllReadPairs E (p # pairs) self
          = submitAllReadPairs E pairs (submitReadPair E self r ra m ma)"
    by (simp add: submitAllReadPairs_def p)
  then show ?case
    using Cons.IH [of "submitReadPair E self r ra m ma"]
    by (simp add: params_submitReadPair)
qed

text \<open>
  C6. \<open>processMates\<close> itself never writes \<open>countOfInrepeatReadPairs\<close>; the caller, as the
  specification describes it, increments the counter by one for a pair exactly when both
  per-mate classifications equal Inside, and changes nothing else. So after all pairs of
  a locus are submitted the counter has grown by the number of pairs whose two mates both
  classified as Inside, it equals that number when it started at 0, and \<open>analyze\<close> passes
  it to the genotyper.
\<close>

theorem inrepeat_pair_count:
  "countOfInrepeatReadPairs (processMates E self read readAlignment mate mateAlignment)
     = countOfInrepeatReadPairs self
   \<and> (submitReadPair E self read readAlignment mate mateAlignment)\<lparr>countOfInrepeatReadPairs := c\<rparr>
       = (processMates E self read readAlignment mate mateAlignment)\<lparr>countOfInrepeatReadPairs := c\<rparr>
   \<and> countOfInrepeatReadPairs (submitReadPair E self read readAlignment mate mateAlignment)
       = countOfInrepeatReadPairs self
           + (if canonicalAlignmentType (classifyReadAlignment E self readAlignment) = kInsideRepeat
                 \<and> canonicalAlignmentType (classifyReadAlignment E self mateAlignment) = kInsideRepeat
              then 1 else 0)
   \<and> countOfInrepeatReadPairs (submitAllReadPairs E pairs self)
       = countOfInrepeatReadPairs self + int (length (spec_inrepeatPairs E pairs))
   \<and> (countOfInrepeatReadPairs self = 0 \<longrightarrow>
        countOfInrepeatReadPairs (submitAllReadPairs E pairs self)
          = int (length (spec_inrepeatPairs E pairs)))
   \<and> (countOfInrepeatReadPairs self = 0
        \<and> meanReadLength stats \<noteq> 0
        \<and> \<not> depth stats < minLocusCoverage (genotyperParams (submitAllReadPairs E pairs self))
        \<and> repeatUnit (submitAllReadPairs E pairs self) \<noteq> [] \<longrightarrow>
      (\<exists>findings.
         analyze E (submitAllReadPairs E pairs self) stats
           = Some (findings, submitAllReadPairs E pairs self)
         \<and> findingsRepeatGenotype findings =
             genotypeRepeat E
               (if alleleCount stats = kTwo then depth stats / 2 else depth stats)
               (alleleCount stats)
               (int (length (repeatUnit (submitAllReadPairs E pairs self))))
               (spec_maxNumUnitsInRead (meanReadLength stats)
                  (int (length (repeatUnit (submitAllReadPairs E pairs self)))))
               (97 / 100)
               (findingsSpanningTable findings)
               (findingsFlankingTable findings)
               (findingsInrepeatTable findings)
               (int (length (spec_inrepeatPairs E pairs)))
               (generateCandidateAlleleSizes (findingsSpanningTable findings)
                  (findingsFlankingTable findings) (findingsInrepeatTable findings))))"
proof -
  let ?final = "submitAllReadPairs E pairs self"
  have a: "countOfInrepeatReadPairs (processMates E self read readAlignment mate mateAlignment)
     = countOfInrepeatReadPairs self"
    by (rule countOfInrepeatReadPairs_processMates)
  have b: "(submitReadPair E self read readAlignment mate mateAlignment)\<lparr>countOfInrepeatReadPairs := c\<rparr>
       = (processMates E self read readAlignment mate mateAlignment)\<lparr>countOfInrepeatReadPairs := c\<rparr>"
    by (rule submitReadPair_frame)
  have c: "countOfInrepeatReadPairs (submitReadPair E self read readAlignment mate mateAlignment)
       = countOfInrepeatReadPairs self
           + (if canonicalAlignmentType (classifyReadAlignment E self readAlignment) = kInsideRepeat
                 \<and> canonicalAlignmentType (classifyReadAlignment E self mateAlignment) = kInsideRepeat
              then 1 else 0)"
    by (simp add: countOfInrepeatReadPairs_submitReadPair canonicalAlignmentType_classify)
  have d: "countOfInrepeatReadPairs ?final
       = countOfInrepeatReadPairs self + int (length (spec_inrepeatPairs E pairs))"
    by (rule countOfInrepeatReadPairs_submitAll)
  have e: "\<exists>findings.
         analyze E ?final stats = Some (findings, ?final)
         \<and> findingsRepeatGenotype findings =
             genotypeRepeat E
               (if alleleCount stats = kTwo then depth stats / 2 else depth stats)
               (alleleCount stats)
               (int (length (repeatUnit ?final)))
               (spec_maxNumUnitsInRead (meanReadLength stats) (int (length (repeatUnit ?final))))
               (97 / 100)
               (findingsSpanningTable findings)
               (findingsFlankingTable findings)
               (findingsInrepeatTable findings)
               (int (length (spec_inrepeatPairs E pairs)))
               (generateCandidateAlleleSizes (findingsSpanningTable findings)
                  (findingsFlankingTable findings) (findingsInrepeatTable findings))"
    if "countOfInrepeatReadPairs self = 0" "meanReadLength stats \<noteq> 0"
      "\<not> depth stats < minLocusCoverage (genotyperParams ?final)" "repeatUnit ?final \<noteq> []"
    using analyze_sufficient [OF that(2-4), of E] d that(1) by simp
  have d0: "countOfInrepeatReadPairs self = 0 \<longrightarrow>
        countOfInrepeatReadPairs ?final = int (length (spec_inrepeatPairs E pairs))"
    using d by simp
  show ?thesis
  proof (intro conjI impI)
    assume "countOfInrepeatReadPairs self = 0
        \<and> meanReadLength stats \<noteq> 0
        \<and> \<not> depth stats < minLocusCoverage (genotyperParams ?final)
        \<and> repeatUnit ?final \<noteq> []"
    then show "\<exists>findings.
         analyze E ?final stats = Some (findings, ?final)
         \<and> findingsRepeatGenotype findings =
             genotypeRepeat E
               (if alleleCount stats = kTwo then depth stats / 2 else depth stats)
               (alleleCount stats)
               (int (length (repeatUnit ?final)))
               (spec_maxNumUnitsInRead (meanReadLength stats) (int (length (repeatUnit ?final))))
               (97 / 100)
               (findingsSpanningTable findings)
               (findingsFlankingTable findings)
               (findingsInrepeatTable findings)
               (int (length (spec_inrepeatPairs E pairs)))
               (generateCandidateAlleleSizes (findingsSpanningTable findings)
                  (findingsFlankingTable findings) (findingsInrepeatTable findings))"
      using e by blast
  next
    assume "countOfInrepeatReadPairs self = 0"
    then show "countOfInrepeatReadPairs ?final = int (length (spec_inrepeatPairs E pairs))"
      using d0 by simp
  qed (rule a b c d)+
qed

theorem inrepeat_pair_count_witness:
  "countOfInrepeatReadPairs exampleAnalyzer = 0
   \<and> countOfInrepeatReadPairs
       (submitAllReadPairs exampleCollaborators
          [(exampleRead, exampleAlignment True False False kInsideRepeat 9,
            exampleRead, exampleAlignment True False False kInsideRepeat 7),
           (exampleRead, exampleAlignment True False False kInsideRepeat 9,
            exampleRead, exampleAlignment True True False kFlanksRepeat 2),
           (exampleRead, exampleAlignment False False False kInsideRepeat 11,
            exampleRead, exampleAlignment True False False kInsideRepeat 12)]
          exampleAnalyzer) = 2
   \<and> (\<exists>findings final sizes.
        final = submitAllReadPairs exampleCollaborators
          [(exampleRead, exampleAlignment True False False kInsideRepeat 9,
            exampleRead, exampleAlignment True False False kInsideRepeat 7),
           (exampleRead, exampleAlignment True False False kInsideRepeat 9,
            exampleRead, exampleAlignment True True False kFlanksRepeat 2),
           (exampleRead, exampleAlignment False False False kInsideRepeat 11,
            exampleRead, exampleAlignment True False False kInsideRepeat 12)]
          exampleAnalyzer
        \<and> analyze exampleCollaborators final (exampleStats kTwo 150 30) = Some (findings, final)
        \<and> findingsRepeatGenotype findings = Some (2, sizes))"
proof -
  let ?pairs = "[(exampleRead, exampleAlignment True False False kInsideRepeat 9,
            exampleRead, exampleAlignment True False False kInsideRepeat 7),
           (exampleRead, exampleAlignment True False False kInsideRepeat 9,
            exampleRead, exampleAlignment True True False kFlanksRepeat 2),
           (exampleRead, exampleAlignment False False False kInsideRepeat 11,
            exampleRead, exampleAlignment True False False kInsideRepeat 12)]"
  let ?final = "submitAllReadPairs exampleCollaborators ?pairs exampleAnalyzer"
  have z: "countOfInrepeatReadPairs exampleAnalyzer = 0"
    by (simp add: exampleAnalyzer_def)
  have n: "int (length (spec_inrepeatPairs exampleCollaborators ?pairs)) = 2"
    by (simp add: spec_inrepeatPairs_def example_simps)
  have f: "genotyperParams ?final = genotyperParams exampleAnalyzer"
    "repeatUnit ?final = repeatUnit exampleAnalyzer"
    using params_submitAll [of exampleCollaborators ?pairs exampleAnalyzer] by blast+
  have h: "meanReadLength (exampleStats kTwo 150 30) \<noteq> 0
     \<and> \<not> depth (exampleStats kTwo 150 30) < minLocusCoverage (genotyperParams ?final)
     \<and> repeatUnit ?final \<noteq> []"
    unfolding f by (simp add: example_simps)
  have g: "genotypeRepeat exampleCollaborators d ac u m p st ft it c sizes = Some (c, sizes)"
    for d ac u m p st ft it c sizes
    by (simp add: exampleCollaborators_def)
  from inrepeat_pair_count
      [where E = exampleCollaborators and self = exampleAnalyzer
        and stats = "exampleStats kTwo 150 30" and pairs = ?pairs
        and read = exampleRead and mate = exampleRead and c = 0
        and readAlignment = "exampleAlignment True False False kInsideRepeat 9"
        and mateAlignment = "exampleAlignment True False False kInsideRepeat 7"] z h
  show ?thesis
    unfolding g n by blast
qed

section \<open>Collapsing the tables\<close>

lemma collapse_le: "k \<in># collapseTopElements t c \<Longrightarrow> k \<le> c"
  by (auto simp: collapseTopElements_def)

lemma collapse_count_below: "k < c \<Longrightarrow> count (collapseTopElements t c) k = count t k"
  by (induction t) (simp_all add: collapseTopElements_def)

lemma collapse_count_cutoff:
  "count (collapseTopElements t c) c = count t c + size {#k \<in># t. c < k#}"
  by (induction t) (auto simp: collapseTopElements_def)

lemma size_collapse: "size (collapseTopElements t c) = size t"
  by (simp add: collapseTopElements_def)

lemma ceiling_quotient_bounds:
  assumes "0 < u"
  shows "u * (spec_maxNumUnitsInRead len u - 1) < len \<and> len \<le> u * spec_maxNumUnitsInRead len u"
proof -
  let ?q = "real_of_int len / real_of_int u"
  have u: "0 < real_of_int u" using assms by simp
  have lo: "real_of_int \<lceil>?q\<rceil> - 1 < ?q" and hi: "?q \<le> real_of_int \<lceil>?q\<rceil>"
    by linarith+
  from lo u have "(real_of_int \<lceil>?q\<rceil> - 1) * real_of_int u < real_of_int len"
    by (simp only: pos_less_divide_eq)
  then have "real_of_int ((\<lceil>?q\<rceil> - 1) * u) < real_of_int len"
    by simp
  then have a: "(\<lceil>?q\<rceil> - 1) * u < len"
    by (simp only: of_int_less_iff)
  from hi u have "real_of_int len \<le> real_of_int \<lceil>?q\<rceil> * real_of_int u"
    by (simp only: pos_divide_le_eq)
  then have "real_of_int len \<le> real_of_int (\<lceil>?q\<rceil> * u)"
    by simp
  then have b: "len \<le> \<lceil>?q\<rceil> * u"
    by (simp only: of_int_le_iff)
  from a b
  show ?thesis
    by (simp add: spec_maxNumUnitsInRead_def mult.commute)
qed

text \<open>
  C7. In the branch with sufficient data (and a repeat unit that is not empty) the cutoff
  is the ceiling of the exact quotient of the mean read length by the repeat unit length;
  the three tables returned and passed to the genotyper are the accumulated tables
  collapsed at this cutoff. A collapsed table has no bucket above the cutoff, its cutoff
  bucket holds the counts of the cutoff bucket and of all higher buckets, and the buckets
  below are unchanged; with cutoff 12 the counts of bucket 15 are merged into bucket 12.
\<close>

theorem analyze_collapse_cutoff:
  assumes "meanReadLength stats \<noteq> 0"
    and "\<not> depth stats < minLocusCoverage (genotyperParams self)"
    and "repeatUnit self \<noteq> []"
  shows "\<exists>findings cutoff.
           cutoff = spec_maxNumUnitsInRead (meanReadLength stats) (int (length (repeatUnit self)))
         \<and> int (length (repeatUnit self)) * (cutoff - 1) < meanReadLength stats
         \<and> meanReadLength stats \<le> int (length (repeatUnit self)) * cutoff
         \<and> analyze E self stats = Some (findings, self)
         \<and> findingsSpanningTable findings = collapseTopElements (countsOfSpanningReads self) cutoff
         \<and> findingsFlankingTable findings = collapseTopElements (countsOfFlankingReads self) cutoff
         \<and> findingsInrepeatTable findings = collapseTopElements (countsOfInrepeatReads self) cutoff
         \<and> findingsRepeatGenotype findings =
             genotypeRepeat E
               (if alleleCount stats = kTwo then depth stats / 2 else depth stats)
               (alleleCount stats) (int (length (repeatUnit self))) cutoff (97 / 100)
               (collapseTopElements (countsOfSpanningReads self) cutoff)
               (collapseTopElements (countsOfFlankingReads self) cutoff)
               (collapseTopElements (countsOfInrepeatReads self) cutoff)
               (countOfInrepeatReadPairs self)
               (generateCandidateAlleleSizes
                 (collapseTopElements (countsOfSpanningReads self) cutoff)
                 (collapseTopElements (countsOfFlankingReads self) cutoff)
                 (collapseTopElements (countsOfInrepeatReads self) cutoff))
         \<and> (\<forall>t k. 0 < countOf (collapseTopElements t cutoff) k \<longrightarrow> k \<le> cutoff)
         \<and> (\<forall>t. countOf (collapseTopElements t cutoff) cutoff
                  = countOf t cutoff + size {#k \<in># t. cutoff < k#})
         \<and> (\<forall>t k. k < cutoff \<longrightarrow> countOf (collapseTopElements t cutoff) k = countOf t k)
         \<and> collapseTopElements {#3, 12, 15, 15#} 12 = {#3, 12, 12, 12#}"
proof -
  let ?c = "spec_maxNumUnitsInRead (meanReadLength stats) (int (length (repeatUnit self)))"
  have u: "0 < int (length (repeatUnit self))"
    using assms(3) by simp
  have le: "\<forall>t k. 0 < countOf (collapseTopElements t ?c) k \<longrightarrow> k \<le> ?c"
    by (auto simp: countOf_def intro: collapse_le)
  have cut: "\<forall>t. countOf (collapseTopElements t ?c) ?c = countOf t ?c + size {#k \<in># t. ?c < k#}"
    by (simp add: countOf_def collapse_count_cutoff)
  have below: "\<forall>t k. k < ?c \<longrightarrow> countOf (collapseTopElements t ?c) k = countOf t k"
    by (simp add: countOf_def collapse_count_below)
  have ex: "collapseTopElements {#3, 12, 15, 15#} 12 = {#3, 12, 12, 12#}"
    by (simp add: collapseTopElements_def)
  from analyze_sufficient [OF assms, of E] ceiling_quotient_bounds [OF u, of "meanReadLength stats"]
    le cut below ex
  show ?thesis by simp
qed

theorem analyze_collapse_cutoff_witness:
  "spec_maxNumUnitsInRead 35 3 = 12
   \<and> (\<exists>findings.
        analyze exampleCollaborators exampleAnalyzer (exampleStats kTwo 35 30)
          = Some (findings, exampleAnalyzer)
        \<and> findingsSpanningTable findings = {#5, 5, 12#}
        \<and> findingsFlankingTable findings = {#8#}
        \<and> findingsInrepeatTable findings = {#}
        \<and> countOf (findingsSpanningTable findings) 15 = 0
        \<and> countOf (findingsSpanningTable findings) 12 = 1)"
proof -
  have c: "spec_maxNumUnitsInRead 35 3 = 12"
    by (simp add: spec_maxNumUnitsInRead_def)
  have h: "meanReadLength (exampleStats kTwo 35 30) \<noteq> 0"
    "\<not> depth (exampleStats kTwo 35 30) < minLocusCoverage (genotyperParams exampleAnalyzer)"
    "repeatUnit exampleAnalyzer \<noteq> []"
    by (simp_all add: example_simps)
  have v: "meanReadLength (exampleStats kTwo 35 30) = 35"
    "int (length (repeatUnit exampleAnalyzer)) = 3"
    "collapseTopElements (countsOfSpanningReads exampleAnalyzer) 12 = {#5, 5, 12#}"
    "collapseTopElements (countsOfFlankingReads exampleAnalyzer) 12 = {#8#}"
    "collapseTopElements (countsOfInrepeatReads exampleAnalyzer) 12 = {#}"
    by (simp_all add: example_simps collapseTopElements_def)
  from analyze_collapse_cutoff [OF h, of exampleCollaborators]
  obtain findings cutoff where
    "cutoff = spec_maxNumUnitsInRead (meanReadLength (exampleStats kTwo 35 30))
       (int (length (repeatUnit exampleAnalyzer)))"
    "analyze exampleCollaborators exampleAnalyzer (exampleStats kTwo 35 30)
       = Some (findings, exampleAnalyzer)"
    "findingsSpanningTable findings
       = collapseTopElements (countsOfSpanningReads exampleAnalyzer) cutoff"
    "findingsFlankingTable findings
       = collapseTopElements (countsOfFlankingReads exampleAnalyzer) cutoff"
    "findingsInrepeatTable findings
       = collapseTopElements (countsOfInrepeatReads exampleAnalyzer) cutoff"
    by blast
  then have
    "analyze exampleCollaborators exampleAnalyzer (exampleStats kTwo 35 30)
       = Some (findings, exampleAnalyzer)"
    "findingsSpanningTable findings = {#5, 5, 12#}"
    "findingsFlankingTable findings = {#8#}"
    "findingsInrepeatTable findings = {#}"
    by (simp_all add: v c)
  then show ?thesis
    using c by (auto simp: countOf_def)
qed

section \<open>The analysis does not change the analyzer\<close>

text \<open>
  C8. \<open>analyze\<close> leaves the analyzer as it was: it returns findings whenever the repeat
  unit is not empty, the analyzer after the call is the analyzer before it, and a second
  call with the same locus statistics returns the same findings.
\<close>

theorem analyze_read_only:
  "(repeatUnit self \<noteq> [] \<longrightarrow> (\<exists>findings. analyze E self stats = Some (findings, self)))
   \<and> (\<forall>findings self'. analyze E self stats = Some (findings, self') \<longrightarrow>
         self' = self \<and> analyze E self' stats = Some (findings, self'))"
  by (auto simp: analyze_def Let_def split: if_splits)

theorem analyze_read_only_witness:
  "repeatUnit exampleAnalyzer \<noteq> []
   \<and> (\<exists>findings.
        analyze exampleCollaborators exampleAnalyzer (exampleStats kTwo 35 30)
          = Some (findings, exampleAnalyzer)
        \<and> countsOfSpanningReads exampleAnalyzer = {#5, 5, 15#}
        \<and> findingsSpanningTable findings = {#5, 5, 12#})"
proof -
  have h: "repeatUnit exampleAnalyzer \<noteq> []"
    by (simp add: exampleAnalyzer_def)
  have t: "findingsSpanningTable findings = {#5, 5, 12#}"
    if "analyze exampleCollaborators exampleAnalyzer (exampleStats kTwo 35 30)
          = Some (findings, s)" for findings s
    using that
    by (auto simp: analyze_def Let_def example_simps collapseTopElements_def split: if_splits)
  have a: "countsOfSpanningReads exampleAnalyzer = {#5, 5, 15#}"
    by (simp add: exampleAnalyzer_def)
  from analyze_read_only [of exampleAnalyzer exampleCollaborators "exampleStats kTwo 35 30"] h t a
  show ?thesis by blast
qed

section \<open>Order of submission\<close>

lemma inspect_commute:
  "inspect E a (inspect E b c) = inspect E b (inspect E a c)"
  by (simp add: inspect_def)

lemma incrementCountOf_commute:
  "incrementCountOf j (incrementCountOf k t) = incrementCountOf k (incrementCountOf j t)"
  by (simp add: incrementCountOf_def add_mset_commute)

lemma spec_accumulate_commute:
  "spec_accumulate E a (spec_accumulate E b self) = spec_accumulate E b (spec_accumulate E a self)"
  by (simp add: spec_accumulate_def Let_def classifyReadAlignment_def inspect_commute
      incrementCountOf_commute)

lemma processMates_commute:
  "processMates E (processMates E self r ra m ma) r' ra' m' ma' =
   processMates E (processMates E self r' ra' m' ma') r ra m ma"
proof -
  have "spec_accumulate E ma' (spec_accumulate E ra' (spec_accumulate E ma (spec_accumulate E ra self)))
      = spec_accumulate E ma' (spec_accumulate E ma (spec_accumulate E ra' (spec_accumulate E ra self)))"
    by (simp add: spec_accumulate_commute [of E ra' ma])
  also have "\<dots> = spec_accumulate E ma (spec_accumulate E ma' (spec_accumulate E ra' (spec_accumulate E ra self)))"
    by (simp add: spec_accumulate_commute [of E ma' ma])
  also have "\<dots> = spec_accumulate E ma (spec_accumulate E ma' (spec_accumulate E ra (spec_accumulate E ra' self)))"
    by (simp add: spec_accumulate_commute [of E ra' ra])
  also have "\<dots> = spec_accumulate E ma (spec_accumulate E ra (spec_accumulate E ma' (spec_accumulate E ra' self)))"
    by (simp add: spec_accumulate_commute [of E ma' ra])
  finally show ?thesis
    by (simp add: processMates_accumulate)
qed

lemma processAllMates_permuted:
  assumes "mset pairs = mset pairs'"
  shows "processAllMates E pairs self = processAllMates E pairs' self"
proof -
  let ?f = "\<lambda>(read, readAlignment, mate, mateAlignment) s.
              processMates E s read readAlignment mate mateAlignment"
  have "?f x \<circ> ?f y = ?f y \<circ> ?f x" for x y
    by (cases x, cases y) (simp add: fun_eq_iff processMates_commute)
  then have "fold ?f pairs = fold ?f pairs'"
    using assms by (intro fold_multiset_equiv) auto
  then show ?thesis
    by (simp add: processAllMates_def)
qed

text \<open>
  C9. If two sequences of read pairs are permutations of each other, submitting either
  to \<open>processMates\<close> pair by pair gives the same analyzer (tables, counters and
  breakpoint statistics), and so the same result of \<open>analyze\<close>.
\<close>

theorem processMates_order_invariant:
  assumes "mset pairs = mset pairs'"
  shows "processAllMates E pairs self = processAllMates E pairs' self
    \<and> analyze E (processAllMates E pairs self) stats
        = analyze E (processAllMates E pairs' self) stats"
  using processAllMates_permuted [OF assms, of E self] by simp

theorem processMates_order_invariant_witness:
  "mset [(exampleRead, exampleAlignment True True True kSpansRepeat 5,
          exampleRead, exampleAlignment True False True kFlanksRepeat 8),
         (exampleRead, exampleAlignment True True False kFlanksRepeat 2,
          exampleRead, exampleAlignment True False False kInsideRepeat 9)]
   = mset [(exampleRead, exampleAlignment True True False kFlanksRepeat 2,
          exampleRead, exampleAlignment True False False kInsideRepeat 9),
         (exampleRead, exampleAlignment True True True kSpansRepeat 5,
          exampleRead, exampleAlignment True False True kFlanksRepeat 8)]
   \<and> processAllMates exampleCollaborators
        [(exampleRead, exampleAlignment True True True kSpansRepeat 5,
          exampleRead, exampleAlignment True False True kFlanksRepeat 8),
         (exampleRead, exampleAlignment True True False kFlanksRepeat 2,
          exampleRead, exampleAlignment True False False kInsideRepeat 9)] exampleAnalyzer
     = processAllMates exampleCollaborators
        [(exampleRead, exampleAlignment True True False kFlanksRepeat 2,
          exampleRead, exampleAlignment True False False kInsideRepeat 9),
         (exampleRead, exampleAlignment True True True kSpansRepeat 5,
          exampleRead, exampleAlignment True False True kFlanksRepeat 8)] exampleAnalyzer
   \<and> countsOfFlankingReads (processAllMates exampleCollaborators
        [(exampleRead, exampleAlignment True True True kSpansRepeat 5,
          exampleRead, exampleAlignment True False True kFlanksRepeat 8),
         (exampleRead, exampleAlignment True True False kFlanksRepeat 2,
          exampleRead, exampleAlignment True False False kInsideRepeat 9)] exampleAnalyzer)
     = {#2, 8, 8#}"
proof -
  have h: "mset [(exampleRead, exampleAlignment True True True kSpansRepeat 5,
          exampleRead, exampleAlignment True False True kFlanksRepeat 8),
         (exampleRead, exampleAlignment True True False kFlanksRepeat 2,
          exampleRead, exampleAlignment True False False kInsideRepeat 9)]
   = mset [(exampleRead, exampleAlignment True True False kFlanksRepeat 2,
          exampleRead, exampleAlignment True False False kInsideRepeat 9),
         (exampleRead, exampleAlignment True True True kSpansRepeat 5,
          exampleRead, exampleAlignment True False True kFlanksRepeat 8)]"
    by (simp add: add_mset_commute)
  have v: "countsOfFlankingReads (processAllMates exampleCollaborators
        [(exampleRead, exampleAlignment True True True kSpansRepeat 5,
          exampleRead, exampleAlignment True False True kFlanksRepeat 8),
         (exampleRead, exampleAlignment True True False kFlanksRepeat 2,
          exampleRead, exampleAlignment True False False kInsideRepeat 9)] exampleAnalyzer)
     = {#2, 8, 8#}"
    by (simp add: processAllMates_def processMates_def Let_def classifyReadAlignment_def
        checkIfAlignmentIsConfident_def summarizeAlignmentsToReadCounts_def inspect_def
        incrementCountOf_def example_simps add_mset_commute)
  from processMates_order_invariant [OF h, of exampleCollaborators exampleAnalyzer] h v
  show ?thesis by blast
qed

section \<open>Duplicates and emptiness of the candidate list\<close>

lemma spec_longest_le_0: "spec_longest t \<le> 0 \<longleftrightarrow> (\<forall>k \<in># t. k \<le> 0)"
  by (auto simp: spec_longest_def)

lemma le_spec_longest: "k \<in># t \<Longrightarrow> k \<le> spec_longest t"
  by (auto simp: spec_longest_def)

lemma spec_longest_empty [simp]: "spec_longest {#} = 0"
  by (simp add: spec_longest_def)

text \<open>
  C10, as stated, fails: with an empty spanning table and a flanking table whose only
  bucket is 0 the candidate list is empty although not all three tables are empty.
\<close>

theorem generateCandidateAlleleSizes_empty_counterexample:
  "\<not> (generateCandidateAlleleSizes {#} {#0#} {#} = [] \<longleftrightarrow>
        ({#} :: CountTable) = {#} \<and> ({#0#} :: CountTable) = {#} \<and> ({#} :: CountTable) = {#})"
proof -
  have "generateCandidateAlleleSizes {#} {#0#} {#} = []"
    by code_simp
  then show ?thesis by simp
qed

text \<open>
  C10, amended. The candidate list never contains duplicates: on a tie nothing is
  appended, and an appended value strictly exceeds every spanning-derived candidate. The
  list is empty iff the spanning table is empty and neither the flanking nor the
  in-repeat table has a bucket with a key above 0; in particular it is empty when all
  three tables are empty.
\<close>

theorem generateCandidateAlleleSizes_distinct:
  "distinct (generateCandidateAlleleSizes s f i)
   \<and> (spec_longest s = spec_longestNonSpanning f i \<longrightarrow>
        generateCandidateAlleleSizes s f i = getElementsWithNonzeroCounts s)
   \<and> (spec_longest s < spec_longestNonSpanning f i \<longrightarrow>
        generateCandidateAlleleSizes s f i
          = getElementsWithNonzeroCounts s @ [spec_longestNonSpanning f i]
        \<and> (\<forall>k \<in> set (getElementsWithNonzeroCounts s). k < spec_longestNonSpanning f i))
   \<and> (generateCandidateAlleleSizes s f i = [] \<longleftrightarrow>
        s = {#} \<and> (\<forall>k \<in># f. k \<le> 0) \<and> (\<forall>k \<in># i. k \<le> 0))
   \<and> (s = {#} \<and> f = {#} \<and> i = {#} \<longrightarrow> generateCandidateAlleleSizes s f i = [])"
proof -
  have above: "k < spec_longestNonSpanning f i"
    if "spec_longest s < spec_longestNonSpanning f i" "k \<in> set (getElementsWithNonzeroCounts s)" for k
    using that le_spec_longest [of k s] by (simp add: set_getElements)
  then have d: "distinct (generateCandidateAlleleSizes s f i)"
    by (auto simp: generateCandidateAlleleSizes_eq distinct_getElements)
  have e: "generateCandidateAlleleSizes s f i = [] \<longleftrightarrow>
        s = {#} \<and> (\<forall>k \<in># f. k \<le> 0) \<and> (\<forall>k \<in># i. k \<le> 0)"
    using spec_longest_le_0 [of f] spec_longest_le_0 [of i]
    by (auto simp: generateCandidateAlleleSizes_eq getElements_Nil spec_longestNonSpanning_def)
  from d e above show ?thesis
    by (auto simp: generateCandidateAlleleSizes_eq)
qed

theorem generateCandidateAlleleSizes_distinct_witness:
  "spec_longest {#5, 5#} < spec_longestNonSpanning {#8#} {#}
   \<and> generateCandidateAlleleSizes {#5, 5#} {#8#} {#} = [5, 8]
   \<and> spec_longest {#8#} = spec_longestNonSpanning {#8#} {#3#}
   \<and> generateCandidateAlleleSizes {#8#} {#8#} {#3#} = [8]
   \<and> generateCandidateAlleleSizes {#} {#0#} {#} = []
   \<and> generateCandidateAlleleSizes {#} {#} {#} = []"
proof -
  have a: "spec_longest {#5, 5#} = 5" "spec_longestNonSpanning {#8#} {#} = 8"
    "spec_longest {#8#} = 8" "spec_longestNonSpanning {#8#} {#3#} = 8"
    "getElementsWithNonzeroCounts {#5, 5#} = [5]" "getElementsWithNonzeroCounts {#8#} = [8]"
    by code_simp+
  show ?thesis
    using generateCandidateAlleleSizes_distinct [of "{#5, 5#}" "{#8#}" "{#}"]
      generateCandidateAlleleSizes_distinct [of "{#8#}" "{#8#}" "{#3#}"]
      generateCandidateAlleleSizes_distinct [of "{#}" "{#0#}" "{#}"]
      generateCandidateAlleleSizes_distinct [of "{#}" "{#}" "{#}"]
    by (simp add: a)
qed

end
